theory Spec2Isabelle
  imports Complex_Main
begin

section \<open>Exceptions\<close>

text \<open>
  The exception classes that \<^verbatim>\<open>prophet-model.py\<close> raises. \<open>ModelTrainingException\<close> and
  \<open>PredictionException\<close> come from \<^verbatim>\<open>src.utils.exceptions\<close>; \<open>ValueError\<close> and the
  plain \<open>Exception\<close> (here \<open>PyException\<close>) are Python's own. Each carries its message,
  which is what \<^verbatim>\<open>str(e)\<close> returns. An exception raised inside pandas, Prophet, numpy
  or joblib is only ever caught by \<^verbatim>\<open>except Exception as e\<close> and read through
  \<^verbatim>\<open>str(e)\<close>, so it is modelled by its message alone (\<open>Inl msg\<close>).
\<close>

datatype error =
    ModelTrainingException string
  | PredictionException string
  | ValueError string
  | PyException string

fun str :: "error \<Rightarrow> string" where
  "str (ModelTrainingException m) = m"
| "str (PredictionException m) = m"
| "str (ValueError m) = m"
| "str (PyException m) = m"

section \<open>Data frames\<close>

text \<open>
  A pandas data frame: named, typed columns and rows of cells. A float64 cell is a
  number or NaN (\<open>NA\<close>); numbers are exact rationals, so rounding and the infinities
  are outside the model. A parsed timestamp is \<open>Stamp t\<close>; NaT is \<open>NA\<close> too.
  Column names are taken to be distinct (a lookup finds the first column of that name),
  and a row shorter than the header reads as \<open>NA\<close> in the columns it lacks.
\<close>

datatype dtype =
    Float64 | Int64 | Float32 | Int32
  | Float16 | Int16 | Int8 | UInt8 | UInt16 | UInt32 | UInt64 | Complex128
  | Bool | Object | Datetime64

datatype cell = Num rat | Text string | Stamp int | NA

record frame =
  columns :: "(string \<times> dtype) list"
  rows :: "cell list list"

definition column_names :: "frame \<Rightarrow> string list" where
  "column_names f = map fst (columns f)"

fun index_of :: "string \<Rightarrow> string list \<Rightarrow> nat option" where
  "index_of n [] = None"
| "index_of n (x # xs) = (if x = n then Some 0 else map_option Suc (index_of n xs))"

definition cell_at :: "nat \<Rightarrow> cell list \<Rightarrow> cell" where
  "cell_at j r = (if j < length r then r ! j else NA)"

text \<open>
  \<^verbatim>\<open>data[name]\<close>: the column's cells, or KeyError, whose \<^verbatim>\<open>str\<close> is the name in
  single quotes (\<open>key_error\<close> puts a name in single quotes).
\<close>

definition key_error :: "string \<Rightarrow> string" where
  "key_error n = [CHR 0x27] @ n @ [CHR 0x27]"

definition get_column :: "string \<Rightarrow> frame \<Rightarrow> string + cell list" where
  "get_column n f =
     (case index_of n (column_names f) of
        None \<Rightarrow> Inl (key_error n)
      | Some j \<Rightarrow> Inr (map (cell_at j) (rows f)))"

text \<open>\<^verbatim>\<open>data[name] = values\<close> on a column that exists: cells replaced, dtype as given.\<close>

definition set_cell :: "nat \<Rightarrow> cell \<Rightarrow> cell list \<Rightarrow> cell list" where
  "set_cell j v r =
     (if j < length r then r[j := v] else r @ replicate (j - length r) NA @ [v])"

definition set_column :: "string \<Rightarrow> dtype \<Rightarrow> cell list \<Rightarrow> frame \<Rightarrow> frame" where
  "set_column n d vs f =
     (case index_of n (column_names f) of
        None \<Rightarrow> f
      | Some j \<Rightarrow>
          f\<lparr>columns := (columns f)[j := (n, d)],
            rows := map (\<lambda>(r, v). set_cell j v r) (zip (rows f) vs)\<rparr>)"

text \<open>\<^verbatim>\<open>data.rename(columns={old: new})\<close>: a name that is absent renames nothing.\<close>

definition rename :: "string \<Rightarrow> string \<Rightarrow> frame \<Rightarrow> frame" where
  "rename old new f =
     f\<lparr>columns := map (\<lambda>(n, d). (if n = old then new else n, d)) (columns f)\<rparr>"

text \<open>
  \<^verbatim>\<open>pd.to_datetime\<close> is pandas's parser; it is a parameter \<open>parse\<close> giving, for one
  cell, the error message when the cell is unparseable, and otherwise the timestamp
  (\<open>None\<close> for NaT). The first unparseable cell raises.
\<close>

fun to_datetime :: "(cell \<Rightarrow> string + int option) \<Rightarrow> cell list \<Rightarrow> string + cell list" where
  "to_datetime parse [] = Inr []"
| "to_datetime parse (c # cs) =
     (case parse c of
        Inl m \<Rightarrow> Inl m
      | Inr t \<Rightarrow>
          (case to_datetime parse cs of
             Inl m \<Rightarrow> Inl m
           | Inr ts \<Rightarrow> Inr ((case t of None \<Rightarrow> NA | Some s \<Rightarrow> Stamp s) # ts)))"

text \<open>
  \<^verbatim>\<open>data.sort_values("ds").reset_index(drop=True)\<close>: rows in ascending order of the
  timestamp, NaT rows last. Rows with equal timestamps keep their order here.
\<close>

fun stamp_key :: "cell \<Rightarrow> int" where
  "stamp_key (Stamp t) = t"
| "stamp_key _ = 0"

definition sort_values :: "string \<Rightarrow> frame \<Rightarrow> frame" where
  "sort_values n f =
     (case index_of n (column_names f) of
        None \<Rightarrow> f
      | Some j \<Rightarrow>
          f\<lparr>rows := sort_key (\<lambda>r. stamp_key (cell_at j r)) (filter (\<lambda>r. cell_at j r \<noteq> NA) (rows f))
                     @ filter (\<lambda>r. cell_at j r = NA) (rows f)\<rparr>)"

text \<open>\<^verbatim>\<open>fillna(method="ffill")\<close> and \<^verbatim>\<open>fillna(method="bfill")\<close> on one column.\<close>

fun ffill_from :: "cell \<Rightarrow> cell list \<Rightarrow> cell list" where
  "ffill_from prev [] = []"
| "ffill_from prev (c # cs) =
     (if c = NA then prev # ffill_from prev cs else c # ffill_from c cs)"

definition ffill :: "cell list \<Rightarrow> cell list" where
  "ffill cs = ffill_from NA cs"

definition bfill :: "cell list \<Rightarrow> cell list" where
  "bfill cs = rev (ffill_from NA (rev cs))"

text \<open>
  \<^verbatim>\<open>Series.quantile(q)\<close> for \<open>q = p / d\<close>, by linear interpolation between the two
  nearest order statistics of the values that are present; NaN (\<open>None\<close>) when none is.
  On a column that holds anything but numbers and NaN the arithmetic raises TypeError.
\<close>

fun is_numeric_cell :: "cell \<Rightarrow> bool" where
  "is_numeric_cell (Num x) = True"
| "is_numeric_cell NA = True"
| "is_numeric_cell _ = False"

fun present :: "cell list \<Rightarrow> rat list" where
  "present [] = []"
| "present (Num x # cs) = x # present cs"
| "present (c # cs) = present cs"

definition interpolate :: "rat list \<Rightarrow> nat \<Rightarrow> nat \<Rightarrow> rat" where
  "interpolate s p d =
     (let k = (length s - 1) * p; i = k div d; r = k mod d
      in if r = 0 then s ! i
         else s ! i + (s ! (i + 1) - s ! i) * (of_nat r / of_nat d))"

definition quantile :: "cell list \<Rightarrow> nat \<Rightarrow> nat \<Rightarrow> string + rat option" where
  "quantile cs p d =
     (if \<not> list_all is_numeric_cell cs then Inl ''unsupported operand type(s)''
      else if present cs = [] then Inr None
      else Inr (Some (interpolate (sort (present cs)) p d)))"

text \<open>Float arithmetic with NaN: a NaN operand gives NaN.\<close>

definition fsub :: "rat option \<Rightarrow> rat option \<Rightarrow> rat option" where
  "fsub a b = (case (a, b) of (Some x, Some y) \<Rightarrow> Some (x - y) | _ \<Rightarrow> None)"

definition fadd :: "rat option \<Rightarrow> rat option \<Rightarrow> rat option" where
  "fadd a b = (case (a, b) of (Some x, Some y) \<Rightarrow> Some (x + y) | _ \<Rightarrow> None)"

definition fmul :: "rat \<Rightarrow> rat option \<Rightarrow> rat option" where
  "fmul k a = map_option (\<lambda>x. k * x) a"

text \<open>
  \<^verbatim>\<open>Series.clip(lower, upper)\<close> with scalar bounds: a NaN bound is no bound, two
  bounds are put in order, and a NaN cell stays NaN.
\<close>

fun clip_cell :: "rat option \<Rightarrow> rat option \<Rightarrow> cell \<Rightarrow> cell" where
  "clip_cell lo hi (Num x) =
     (let x1 = (case hi of None \<Rightarrow> x | Some u \<Rightarrow> if x \<le> u then x else u);
          x2 = (case lo of None \<Rightarrow> x1 | Some l \<Rightarrow> if l \<le> x1 then x1 else l)
      in Num x2)"
| "clip_cell lo hi c = c"

definition clip :: "rat option \<Rightarrow> rat option \<Rightarrow> cell list \<Rightarrow> cell list" where
  "clip lower upper cs =
     (case (lower, upper) of
        (Some l, Some u) \<Rightarrow> map (clip_cell (Some (min l u)) (Some (max l u))) cs
      | _ \<Rightarrow> map (clip_cell lower upper) cs)"

section \<open>\<open>ProphetForecastingModel.prepare_data\<close>\<close>

text \<open>
  The body of the \<^verbatim>\<open>try\<close> block, step by step; \<open>Inl msg\<close> is an exception raised
  inside it, with \<open>msg\<close> its \<^verbatim>\<open>str\<close>. \<open>filled_values\<close> is the value column as it
  stands after line 85, the column the quartiles are taken over.
\<close>

definition renamed :: "frame \<Rightarrow> string \<Rightarrow> string \<Rightarrow> frame" where
  "renamed df target_col date_col =
     (let data = df;
          data = (if date_col \<noteq> ''ds'' then rename date_col ''ds'' data else data);
          data = (if target_col \<noteq> ''y'' then rename target_col ''y'' data else data)
      in data)"

definition dated :: "(cell \<Rightarrow> string + int option) \<Rightarrow> frame \<Rightarrow> string + frame" where
  "dated parse data =
     (case get_column ''ds'' data of
        Inl m \<Rightarrow> Inl m
      | Inr raw \<Rightarrow>
          (case to_datetime parse raw of
             Inl m \<Rightarrow> Inl m
           | Inr stamps \<Rightarrow> Inr (sort_values ''ds'' (set_column ''ds'' Datetime64 stamps data))))"


definition lower_bound :: "rat option \<Rightarrow> rat option \<Rightarrow> rat option" where
  "lower_bound Q1 Q3 = fsub Q1 (fmul (3 / 2) (fsub Q3 Q1))"

definition upper_bound :: "rat option \<Rightarrow> rat option \<Rightarrow> rat option" where
  "upper_bound Q1 Q3 = fadd Q3 (fmul (3 / 2) (fsub Q3 Q1))"

definition prepare_body ::
  "(cell \<Rightarrow> string + int option) \<Rightarrow> frame \<Rightarrow> string \<Rightarrow> string \<Rightarrow> string + frame" where
  "prepare_body parse df target_col date_col =
     (case dated parse (renamed df target_col date_col) of
        Inl m \<Rightarrow> Inl m
      | Inr data \<Rightarrow>
          (case get_column ''y'' data of
             Inl m \<Rightarrow> Inl m
           | Inr ys \<Rightarrow>
               (let filled = bfill (ffill ys);
                    data = set_column ''y'' Float64 filled data
                in case quantile filled 1 4 of
                     Inl m \<Rightarrow> Inl m
                   | Inr Q1 \<Rightarrow>
                       (case quantile filled 3 4 of
                          Inl m \<Rightarrow> Inl m
                        | Inr Q3 \<Rightarrow>
                            Inr (set_column ''y'' Float64
                                   (clip (lower_bound Q1 Q3) (upper_bound Q1 Q3) filled) data)))))"

definition prepare_data ::
  "(cell \<Rightarrow> string + int option) \<Rightarrow> frame \<Rightarrow> string \<Rightarrow> string \<Rightarrow> error + frame" where
  "prepare_data parse df target_col date_col =
     (case prepare_body parse df target_col date_col of
        Inl m \<Rightarrow> Inl (ModelTrainingException (''Data preparation failed: '' @ m))
      | Inr data \<Rightarrow> Inr data)"

section \<open>The instance and the libraries it calls\<close>

text \<open>
  A float as numpy reports it where a division can leave the finite numbers.
\<close>

datatype float = Finite rat | PosInf | NegInf | NaN

datatype meta =
    MInt int
  | MNum rat
  | MStr string
  | MList "string list"
  | MTime int
  | MDict "(string \<times> meta) list"

text \<open>
  The attributes of a \<open>ProphetForecastingModel\<close>; \<open>name\<close> and \<open>metadata\<close> are the
  ones \<open>BaseModel\<close> holds. \<open>model\<close> is the Prophet object, of a type \<open>'m\<close> that the
  library owns. \<open>warnings\<close> collects what \<^verbatim>\<open>logger.warning\<close> is given, oldest
  first; the \<^verbatim>\<open>logger.info\<close> lines carry no data and are left out.
\<close>

record 'm forecasting_model =
  name :: string
  seasonality_mode :: string
  changepoint_prior_scale :: rat
  seasonality_prior_scale :: rat
  holidays_prior_scale :: rat
  mcmc_samples :: int
  interval_width :: rat
  uncertainty_samples :: int
  model :: "'m option"
  feature_columns :: "string list"
  target_column :: string
  training_metrics :: "(string \<times> float) list"
  metadata :: "string \<rightharpoonup> meta"
  warnings :: "string list"

text \<open>
  \<^verbatim>\<open>__init__\<close>; \<open>md\<close> is the metadata \<open>BaseModel.__init__\<close> starts with.
\<close>

definition init ::
  "string \<Rightarrow> string \<Rightarrow> rat \<Rightarrow> rat \<Rightarrow> rat \<Rightarrow> int \<Rightarrow> rat \<Rightarrow> int \<Rightarrow> (string \<rightharpoonup> meta)
     \<Rightarrow> 'm forecasting_model" where
  "init nm mode cps sps hps mcmc width samples md =
     \<lparr>name = nm, seasonality_mode = mode, changepoint_prior_scale = cps,
      seasonality_prior_scale = sps, holidays_prior_scale = hps, mcmc_samples = mcmc,
      interval_width = width, uncertainty_samples = samples,
      model = None, feature_columns = [], target_column = [],
      training_metrics = [], metadata = md, warnings = []\<rparr>"

text \<open>The keyword arguments of \<^verbatim>\<open>Prophet(...)\<close> at lines 172 to 183.\<close>

record prophet_args =
  arg_seasonality_mode :: string
  arg_changepoint_prior_scale :: rat
  arg_seasonality_prior_scale :: rat
  arg_holidays_prior_scale :: rat
  arg_mcmc_samples :: int
  arg_interval_width :: rat
  arg_uncertainty_samples :: int
  arg_daily_seasonality :: bool
  arg_weekly_seasonality :: bool
  arg_yearly_seasonality :: bool

text \<open>One row of the frame \<^verbatim>\<open>Prophet.predict\<close> returns, and of the one \<open>predict\<close> returns.\<close>

record prophet_row =
  ds :: int
  yhat :: rat
  yhat_lower :: rat
  yhat_upper :: rat
  components :: "(string \<times> rat) list"

record forecast_row = prophet_row +
  prediction_date :: int
  model_name :: string
  confidence_width :: rat
  relative_uncertainty :: float

text \<open>
  The Prophet library, a black box taken as a parameter: each method gives the message
  of the exception it raises, or its result. A method that changes the Prophet object
  returns the changed object, and one that raises leaves it as it was. \<open>'g\<close> is the
  state of the random stream that \<^verbatim>\<open>Prophet.predict\<close> samples the intervals from.
\<close>

record ('m, 'g) prophet =
  Prophet :: "prophet_args \<Rightarrow> string + 'm"
  add_seasonality :: "string \<Rightarrow> rat \<Rightarrow> nat \<Rightarrow> 'm \<Rightarrow> string + 'm"
  add_regressor :: "string \<Rightarrow> 'm \<Rightarrow> string + 'm"
  add_country_holidays :: "string \<Rightarrow> 'm \<Rightarrow> string + 'm"
  prophet_fit :: "'m \<Rightarrow> frame \<Rightarrow> string + 'm"
  make_future_dataframe :: "'m \<Rightarrow> int \<Rightarrow> string \<Rightarrow> bool \<Rightarrow> string + frame"
  prophet_predict :: "'m \<Rightarrow> frame \<Rightarrow> 'g \<Rightarrow> string + prophet_row list"

text \<open>
  The numeric library calls of \<open>_calculate_training_metrics\<close>, on the value column
  and the fitted values: \<^verbatim>\<open>mean_absolute_percentage_error\<close>,
  \<^verbatim>\<open>np.sqrt(mean_squared_error(..))\<close>, \<^verbatim>\<open>np.mean(np.abs(y - yhat))\<close> and
  \<^verbatim>\<open>np.corrcoef(..)[0, 1] ** 2\<close>.
\<close>

record numerics =
  mape_of :: "cell list \<Rightarrow> rat list \<Rightarrow> string + float"
  rmse_of :: "cell list \<Rightarrow> rat list \<Rightarrow> string + float"
  mae_of :: "cell list \<Rightarrow> rat list \<Rightarrow> string + float"
  r2_of :: "cell list \<Rightarrow> rat list \<Rightarrow> string + float"

section \<open>Configuration: \<open>add_regressors\<close> and \<open>add_custom_seasonalities\<close>\<close>

text \<open>
  \<open>add_regressors\<close>: the loop over \<open>regressor_columns\<close>, on the Prophet object and
  \<open>self.feature_columns\<close>. The result is the pair as the loop left it and, when
  \<^verbatim>\<open>model.add_regressor\<close> raised, the message.
\<close>

definition listed_dtype :: "dtype \<Rightarrow> bool" where
  "listed_dtype d = (d \<in> set [Float64, Int64, Float32, Int32])"

fun register ::
  "('m, 'g) prophet \<Rightarrow> (string \<times> dtype) list \<Rightarrow> 'm \<times> string list
     \<Rightarrow> ('m \<times> string list) \<times> string option" where
  "register P [] (m, fc) = ((m, fc), None)"
| "register P ((col, d) # cols) (m, fc) =
     (if listed_dtype d then
        (case add_regressor P col m of
           Inl e \<Rightarrow> ((m, fc), Some e)
         | Inr m' \<Rightarrow> register P cols (m', fc @ [col]))
      else register P cols (m, fc))"

definition regressor_columns :: "frame \<Rightarrow> (string \<times> dtype) list" where
  "regressor_columns data = filter (\<lambda>(col, d). col \<notin> set [''ds'', ''y'']) (columns data)"

definition add_regressors ::
  "('m, 'g) prophet \<Rightarrow> 'm \<times> string list \<Rightarrow> frame \<Rightarrow> ('m \<times> string list) \<times> string option" where
  "add_regressors P mfc data = register P (regressor_columns data) mfc"

definition add_custom_seasonalities :: "('m, 'g) prophet \<Rightarrow> 'm \<Rightarrow> 'm \<times> string option" where
  "add_custom_seasonalities P m =
     (case add_seasonality P ''quarterly'' (1461 / 16) 5 m of
        Inl e \<Rightarrow> (m, Some e)
      | Inr m1 \<Rightarrow>
          (case add_seasonality P ''monthly'' (61 / 2) 3 m1 of
             Inl e \<Rightarrow> (m1, Some e)
           | Inr m2 \<Rightarrow> (m2, None)))"

section \<open>\<open>_calculate_training_metrics\<close> and \<open>fit\<close>\<close>

definition metrics_body ::
  "('m, 'g) prophet \<Rightarrow> numerics \<Rightarrow> 'g \<Rightarrow> 'm forecasting_model \<Rightarrow> frame
     \<Rightarrow> string + (string \<times> float) list" where
  "metrics_body P N g s data =
     (case model s of
        None \<Rightarrow> Inl (key_error ''NoneType'' @ '' object has no attribute '' @ key_error ''predict'')
      | Some m \<Rightarrow>
          (case prophet_predict P m data g of
             Inl e \<Rightarrow> Inl e
           | Inr forecast \<Rightarrow>
               (case get_column ''y'' data of
                  Inl e \<Rightarrow> Inl e
                | Inr ys \<Rightarrow>
                    (case mape_of N ys (map yhat forecast) of
                       Inl e \<Rightarrow> Inl e
                     | Inr mape \<Rightarrow>
                         (case rmse_of N ys (map yhat forecast) of
                            Inl e \<Rightarrow> Inl e
                          | Inr rmse \<Rightarrow>
                              (case mae_of N ys (map yhat forecast) of
                                 Inl e \<Rightarrow> Inl e
                               | Inr mae \<Rightarrow>
                                   (case r2_of N ys (map yhat forecast) of
                                      Inl e \<Rightarrow> Inl e
                                    | Inr r2 \<Rightarrow>
                                        Inr [(''mape'', mape), (''rmse'', rmse),
                                             (''mae'', mae), (''r2'', r2)])))))))"

definition calculate_training_metrics ::
  "('m, 'g) prophet \<Rightarrow> numerics \<Rightarrow> 'g \<Rightarrow> 'm forecasting_model \<Rightarrow> frame \<Rightarrow> 'm forecasting_model" where
  "calculate_training_metrics P N g s data =
     (case metrics_body P N g s data of
        Inr ms \<Rightarrow> s\<lparr>training_metrics := ms\<rparr>
      | Inl e \<Rightarrow> s\<lparr>warnings := warnings s @ [''Could not calculate training metrics: '' @ e]\<rparr>)"

definition constructor_args :: "'m forecasting_model \<Rightarrow> prophet_args" where
  "constructor_args s =
     \<lparr>arg_seasonality_mode = seasonality_mode s,
      arg_changepoint_prior_scale = changepoint_prior_scale s,
      arg_seasonality_prior_scale = seasonality_prior_scale s,
      arg_holidays_prior_scale = holidays_prior_scale s,
      arg_mcmc_samples = mcmc_samples s,
      arg_interval_width = interval_width s,
      arg_uncertainty_samples = uncertainty_samples s,
      arg_daily_seasonality = False,
      arg_weekly_seasonality = True,
      arg_yearly_seasonality = True\<rparr>"

text \<open>
  Lines 165 to 195 of \<open>fit\<close>, up to and with \<^verbatim>\<open>self.model.fit(prepared_data)\<close>: the
  instance as the statements left it, and either the message of the exception raised on
  the way or the prepared frame. Every assignment to \<open>self\<close> made before an exception
  stays made.
\<close>

definition core_fit ::
  "('m, 'g) prophet \<Rightarrow> (cell \<Rightarrow> string + int option) \<Rightarrow> 'm forecasting_model \<Rightarrow> frame \<Rightarrow> string \<Rightarrow> string
     \<Rightarrow> 'm forecasting_model \<times> (string + frame)" where
  "core_fit P parse s data target_col date_col =
     (case prepare_data parse data target_col date_col of
        Inl e \<Rightarrow> (s, Inl (str e))
      | Inr prepared_data \<Rightarrow>
          (let s1 = s\<lparr>target_column := target_col\<rparr> in
           case Prophet P (constructor_args s1) of
             Inl e \<Rightarrow> (s1, Inl e)
           | Inr m0 \<Rightarrow>
               (case add_custom_seasonalities P m0 of
                  (m1, Some e) \<Rightarrow> (s1\<lparr>model := Some m1\<rparr>, Inl e)
                | (m1, None) \<Rightarrow>
                    (case add_regressors P (m1, feature_columns s1) prepared_data of
                       ((m2, fc), Some e) \<Rightarrow>
                         (s1\<lparr>model := Some m2, feature_columns := fc\<rparr>, Inl e)
                     | ((m2, fc), None) \<Rightarrow>
                         (let s2 = s1\<lparr>model := Some m2, feature_columns := fc\<rparr> in
                          case add_country_holidays P ''US'' m2 of
                            Inl e \<Rightarrow> (s2, Inl e)
                          | Inr m3 \<Rightarrow>
                              (case prophet_fit P m3 prepared_data of
                                 Inl e \<Rightarrow> (s2\<lparr>model := Some m3\<rparr>, Inl e)
                               | Inr m4 \<Rightarrow> (s2\<lparr>model := Some m4\<rparr>, Inr prepared_data)))))))"

definition model_params :: "'m forecasting_model \<Rightarrow> meta" where
  "model_params s =
     MDict [(''seasonality_mode'', MStr (seasonality_mode s)),
            (''changepoint_prior_scale'', MNum (changepoint_prior_scale s)),
            (''seasonality_prior_scale'', MNum (seasonality_prior_scale s)),
            (''holidays_prior_scale'', MNum (holidays_prior_scale s))]"

definition update_metadata :: "int \<Rightarrow> frame \<Rightarrow> 'm forecasting_model \<Rightarrow> 'm forecasting_model" where
  "update_metadata now prepared_data s =
     s\<lparr>metadata := metadata s ++ map_of
        [(''training_samples'', MInt (int (length (rows prepared_data)))),
         (''feature_columns'', MList (feature_columns s)),
         (''target_column'', MStr (target_column s)),
         (''training_date'', MTime now),
         (''model_params'', model_params s)]\<rparr>"

text \<open>
  \<open>fit\<close>: the instance after the call and what the call did, \<open>Inr ()\<close> for
  \<^verbatim>\<open>return self\<close>. \<open>now\<close> is the reading of \<^verbatim>\<open>datetime.now()\<close>.
\<close>

definition fit ::
  "('m, 'g) prophet \<Rightarrow> numerics \<Rightarrow> (cell \<Rightarrow> string + int option) \<Rightarrow> 'g \<Rightarrow> int
     \<Rightarrow> 'm forecasting_model \<Rightarrow> frame \<Rightarrow> string \<Rightarrow> string \<Rightarrow> 'm forecasting_model \<times> (error + unit)" where
  "fit P N parse g now s data target_col date_col =
     (case core_fit P parse s data target_col date_col of
        (s', Inl e) \<Rightarrow> (s', Inl (ModelTrainingException (''Prophet model training failed: '' @ e)))
      | (s', Inr prepared_data) \<Rightarrow>
          (update_metadata now prepared_data
             (calculate_training_metrics P N g s' prepared_data), Inr ()))"

section \<open>\<open>predict\<close>\<close>

text \<open>
  numpy's division of a float by a float that is not negative: a zero divisor gives an
  infinity of the dividend's sign, and NaN for \<open>0 / 0\<close>; nothing is raised.
\<close>

definition np_divide :: "rat \<Rightarrow> rat \<Rightarrow> float" where
  "np_divide a b =
     (if b \<noteq> 0 then Finite (a / b)
      else if 0 < a then PosInf
      else if a < 0 then NegInf
      else NaN)"

text \<open>Lines 263 to 266: the four columns \<open>predict\<close> adds to each row.\<close>

definition add_metrics :: "int \<Rightarrow> string \<Rightarrow> prophet_row \<Rightarrow> forecast_row" where
  "add_metrics now nm r =
     \<lparr>ds = ds r, yhat = yhat r, yhat_lower = yhat_lower r, yhat_upper = yhat_upper r,
      components = components r,
      prediction_date = now,
      model_name = nm,
      confidence_width = yhat_upper r - yhat_lower r,
      relative_uncertainty = np_divide (yhat_upper r - yhat_lower r) \<bar>yhat r\<bar>\<rparr>"

text \<open>
  \<^verbatim>\<open>future[col] = values\<close> on a column that exists, its dtype kept.
\<close>

definition replace_cells :: "string \<Rightarrow> cell list \<Rightarrow> frame \<Rightarrow> frame" where
  "replace_cells n vs f =
     (case index_of n (column_names f) of
        None \<Rightarrow> f
      | Some j \<Rightarrow> f\<lparr>rows := map (\<lambda>(r, v). set_cell j v r) (zip (rows f) vs)\<rparr>)"

text \<open>
  Lines 248 to 257, the loop over \<open>self.feature_columns\<close>. \<open>merge future fr col\<close>
  is pandas's \<^verbatim>\<open>future.merge(fr[['ds', col]], on='ds', how='left')\<close>, a parameter.
\<close>

fun merge_regressors ::
  "(frame \<Rightarrow> frame \<Rightarrow> string \<Rightarrow> string + frame) \<Rightarrow> frame \<Rightarrow> string list \<Rightarrow> frame
     \<Rightarrow> string + frame" where
  "merge_regressors merge fr [] future = Inr future"
| "merge_regressors merge fr (col # cols) future =
     (if col \<in> set (column_names fr) then
        (case merge future fr col of
           Inl e \<Rightarrow> Inl e
         | Inr merged \<Rightarrow>
             (case get_column col merged of
                Inl e \<Rightarrow> Inl e
              | Inr cs \<Rightarrow> merge_regressors merge fr cols (replace_cells col (ffill cs) merged)))
      else merge_regressors merge fr cols future)"

definition predict_body ::
  "('m, 'g) prophet \<Rightarrow> (frame \<Rightarrow> frame \<Rightarrow> string \<Rightarrow> string + frame) \<Rightarrow> 'g \<Rightarrow> int
     \<Rightarrow> 'm forecasting_model \<Rightarrow> 'm \<Rightarrow> int \<Rightarrow> string \<Rightarrow> bool \<Rightarrow> frame option
     \<Rightarrow> string + forecast_row list" where
  "predict_body P merge g now s m periods freq include_history future_regressors =
     (case make_future_dataframe P m periods freq include_history of
        Inl e \<Rightarrow> Inl e
      | Inr future \<Rightarrow>
          (case (case future_regressors of
                   None \<Rightarrow> Inr future
                 | Some fr \<Rightarrow>
                     if length (feature_columns s) > 0
                     then merge_regressors merge fr (feature_columns s) future
                     else Inr future) of
             Inl e \<Rightarrow> Inl e
           | Inr future' \<Rightarrow>
               (case prophet_predict P m future' g of
                  Inl e \<Rightarrow> Inl e
                | Inr forecast \<Rightarrow> Inr (map (add_metrics now (name s)) forecast))))"

text \<open>
  \<open>predict\<close>. \<open>g\<close> is the state of the random stream when the call starts and
  \<open>now\<close> the reading of \<^verbatim>\<open>datetime.now()\<close> at line 263.
\<close>

definition predict ::
  "('m, 'g) prophet \<Rightarrow> (frame \<Rightarrow> frame \<Rightarrow> string \<Rightarrow> string + frame) \<Rightarrow> 'g \<Rightarrow> int
     \<Rightarrow> 'm forecasting_model \<Rightarrow> int \<Rightarrow> string \<Rightarrow> bool \<Rightarrow> frame option
     \<Rightarrow> error + forecast_row list" where
  "predict P merge g now s periods freq include_history future_regressors =
     (case model s of
        None \<Rightarrow> Inl (PredictionException ''Model has not been trained yet'')
      | Some m \<Rightarrow>
          (case predict_body P merge g now s m periods freq include_history future_regressors of
             Inl e \<Rightarrow> Inl (PredictionException (''Prediction failed: '' @ e))
           | Inr forecast \<Rightarrow> Inr forecast))"

section \<open>\<open>cross_validate\<close>\<close>



section \<open>\<open>save_model\<close>\<close>

text \<open>The dictionary \<open>model_data\<close> of lines 376 to 382.\<close>

record 'm model_data =
  data_model :: 'm
  data_feature_columns :: "string list"
  data_target_column :: string
  data_training_metrics :: "(string \<times> float) list"
  data_metadata :: "string \<rightharpoonup> meta"

text \<open>
  \<open>dump\<close> is \<^verbatim>\<open>joblib.dump\<close> on a file system of type \<open>'fs\<close>: the file system after
  the call and, if it raised, the message. \<open>save_model\<close> gives the file system after
  the call and what the call did.
\<close>

definition save_model ::
  "('m model_data \<Rightarrow> string \<Rightarrow> 'fs \<Rightarrow> 'fs \<times> string option) \<Rightarrow> 'm forecasting_model \<Rightarrow> string \<Rightarrow> 'fs
     \<Rightarrow> 'fs \<times> (error + unit)" where
  "save_model dump s filepath fs =
     (case model s of
        None \<Rightarrow> (fs, Inl (ValueError ''No model to save''))
      | Some m \<Rightarrow>
          (case dump \<lparr>data_model = m,
                      data_feature_columns = feature_columns s,
                      data_target_column = target_column s,
                      data_training_metrics = training_metrics s,
                      data_metadata = metadata s\<rparr> filepath fs of
             (fs', Some e) \<Rightarrow> (fs', Inl (PyException (''Failed to save model: '' @ e)))
           | (fs', None) \<Rightarrow> (fs', Inr ())))"

section \<open>The spec's notions, and a small stand-in for the libraries\<close>



text \<open>
  A stand-in for Prophet, to run the model on: an object records the seasonalities and
  regressors added and, once fitted, the number of rows it was fitted on. As Prophet
  does, it refuses to fit fewer than two rows and to predict before it is fitted. Its
  forecast at time \<open>t\<close> is \<open>t\<close>, with a band of half-width \<open>g\<close>.
\<close>

record toy =
  toy_seasonalities :: "string list"
  toy_regressors :: "string list"
  toy_history :: "nat option"

definition toy_row :: "nat \<Rightarrow> cell list \<Rightarrow> prophet_row" where
  "toy_row g r =
     \<lparr>ds = stamp_key (cell_at 0 r),
      yhat = of_int (stamp_key (cell_at 0 r)),
      yhat_lower = of_int (stamp_key (cell_at 0 r)) - of_nat g,
      yhat_upper = of_int (stamp_key (cell_at 0 r)) + of_nat g,
      components = []\<rparr>"

definition toy_prophet :: "(toy, nat) prophet" where
  "toy_prophet =
     \<lparr>Prophet = (\<lambda>a. Inr \<lparr>toy_seasonalities = [], toy_regressors = [], toy_history = None\<rparr>),
      add_seasonality = (\<lambda>n p k m. Inr (m\<lparr>toy_seasonalities := toy_seasonalities m @ [n]\<rparr>)),
      add_regressor = (\<lambda>n m. Inr (m\<lparr>toy_regressors := toy_regressors m @ [n]\<rparr>)),
      add_country_holidays = (\<lambda>c m. Inr m),
      prophet_fit = (\<lambda>m f.
        if length (rows f) < 2 then Inl ''Dataframe has less than 2 non-NaN rows.''
        else Inr (m\<lparr>toy_history := Some (length (rows f))\<rparr>)),
      make_future_dataframe = (\<lambda>m periods freq include_history.
        case toy_history m of
          None \<Rightarrow> Inl ''Model has not been fit.''
        | Some n \<Rightarrow>
            Inr \<lparr>columns = [(''ds'', Datetime64)],
                 rows = map (\<lambda>i. [Stamp (int i)])
                          [(if include_history then 0 else n)..<n + nat periods]\<rparr>),
      prophet_predict = (\<lambda>m f g.
        case toy_history m of
          None \<Rightarrow> Inl ''Model has not been fit.''
        | Some n \<Rightarrow> Inr (map (toy_row g) (rows f)))\<rparr>"

definition toy_numerics :: numerics where
  "toy_numerics =
     \<lparr>mape_of = (\<lambda>ys yh. Inr (Finite 0)),
      rmse_of = (\<lambda>ys yh. Inr (Finite 0)),
      mae_of = (\<lambda>ys yh. Inr (Finite 0)),
      r2_of = (\<lambda>ys yh. Inr (Finite 1))\<rparr>"

definition failing_numerics :: numerics where
  "failing_numerics = toy_numerics\<lparr>r2_of := (\<lambda>ys yh. Inl ''invalid value encountered'')\<rparr>"

fun toy_parse :: "cell \<Rightarrow> string + int option" where
  "toy_parse (Stamp t) = Inr (Some t)"
| "toy_parse NA = Inr None"
| "toy_parse (Num x) = Inr (Some \<lfloor>x\<rfloor>)"
| "toy_parse (Text t) = Inl (''Unknown datetime string format, unable to parse: '' @ t)"

definition toy_merge :: "frame \<Rightarrow> frame \<Rightarrow> string \<Rightarrow> string + frame" where
  "toy_merge future fr col = Inr future"


text \<open>A file system that holds at most one dumped dictionary per path.\<close>

definition toy_dump ::
  "toy model_data \<Rightarrow> string \<Rightarrow> (string \<rightharpoonup> toy model_data) \<Rightarrow> (string \<rightharpoonup> toy model_data) \<times> string option" where
  "toy_dump d path fs =
     (if path = [] then (fs, Some ''No such file or directory'') else (fs(path \<mapsto> d), None))"

definition fresh :: "toy forecasting_model" where
  "fresh = init ''prophet_forecasting'' ''multiplicative'' (1 / 20) 10 10 0 (19 / 20) 1000 Map.empty"

definition daily :: "rat option list \<Rightarrow> frame" where
  "daily vs =
     \<lparr>columns = [(''ds'', Datetime64), (''y'', Float64)],
      rows = map (\<lambda>(i, v). [Stamp (int i), case v of None \<Rightarrow> NA | Some x \<Rightarrow> Num x])
               (zip [0..<length vs] vs)\<rparr>"

text \<open>Inputs the model is run on below.\<close>

definition three_days :: frame where
  "three_days = daily [Some 1, Some 2, Some 4]"

definition fitted :: "toy forecasting_model" where
  "fitted = fst (fit toy_prophet toy_numerics toy_parse (1::nat) 0 fresh three_days ''y'' ''ds'')"

definition failed :: "toy forecasting_model" where
  "failed = fst (fit toy_prophet toy_numerics toy_parse (1::nat) 0 fresh (daily [Some 1]) ''y'' ''ds'')"

definition blank :: toy where
  "blank = \<lparr>toy_seasonalities = [], toy_regressors = [], toy_history = None\<rparr>"



text \<open>A forecast row with its time stamp of generation set aside.\<close>

definition undated :: "forecast_row \<Rightarrow> forecast_row" where
  "undated r = r\<lparr>prediction_date := 0\<rparr>"



section \<open>Auxiliary facts\<close>

subsection \<open>Frames\<close>










lemma ffill_from_length [simp]: "length (ffill_from p cs) = length cs"
  by (induction cs arbitrary: p) auto

lemma filled_length [simp]: "length (bfill (ffill cs)) = length cs"
  by (simp add: bfill_def ffill_def)

lemma rows_renamed [simp]: "rows (renamed df tc dc) = rows df"
  by (simp add: renamed_def rename_def Let_def)

lemma clip_length [simp]: "length (clip lo hi cs) = length cs"
  by (simp add: clip_def split: option.splits)



subsection \<open>Filling and quartiles\<close>



















subsection \<open>Configuration and fitting\<close>


lemma core_fit_keeps:
  "core_fit P parse s data tc dc = (s', r) \<Longrightarrow>
     training_metrics s' = training_metrics s \<and> warnings s' = warnings s"
  by (auto simp: core_fit_def Let_def split: sum.splits prod.splits option.splits)

lemma core_fit_success:
  "core_fit P parse s data tc dc = (s', Inr prepared) \<Longrightarrow>
     prepare_data parse data tc dc = Inr prepared \<and>
     (\<exists>m3 m4. prophet_fit P m3 prepared = Inr m4 \<and> model s' = Some m4)"
  by (auto simp: core_fit_def Let_def split: sum.splits prod.splits option.splits)

lemma core_fit_chain:
  assumes "prepare_data parse data tc dc = Inr prepared"
      and "Prophet P (constructor_args (s\<lparr>target_column := tc\<rparr>)) = Inr m0"
      and "add_custom_seasonalities P m0 = (m1, None)"
      and "add_regressors P (m1, feature_columns s) prepared = ((m2, fc), None)"
      and "add_country_holidays P ''US'' m2 = Inr m3"
      and "prophet_fit P m3 prepared = Inr m4"
  shows "core_fit P parse s data tc dc
           = (s\<lparr>target_column := tc, model := Some m4, feature_columns := fc\<rparr>, Inr prepared)"
  using assms by (simp add: core_fit_def Let_def)


lemma undated_add_metrics: "undated (add_metrics now nm r) = undated (add_metrics now' nm r)"
  by (simp add: undated_def add_metrics_def)

section \<open>The claims\<close>

subsection \<open>C1: a short series is not refused by \<open>fit\<close> itself\<close>

text \<open>
  C1 says that \<open>fit\<close> fails with the training error on every series shorter than two
  cycles of the shortest seasonal component. \<open>fit\<close> has no test on the number of
  points. What holds: when data preparation and every Prophet call up to
  \<^verbatim>\<open>self.model.fit\<close> return, \<open>fit\<close> returns and holds the fitted object, whatever
  the length of the series; and when \<open>fit\<close> does fail, it fails with
  \<open>ModelTrainingException\<close>, the message prefixed.
\<close>

theorem fit_outcome:
  "(\<forall>prepared m0 m1 m2 fc m3 m4.
      prepare_data parse data tc dc = Inr prepared \<longrightarrow>
      Prophet P (constructor_args (s\<lparr>target_column := tc\<rparr>)) = Inr m0 \<longrightarrow>
      add_custom_seasonalities P m0 = (m1, None) \<longrightarrow>
      add_regressors P (m1, feature_columns s) prepared = ((m2, fc), None) \<longrightarrow>
      add_country_holidays P ''US'' m2 = Inr m3 \<longrightarrow>
      prophet_fit P m3 prepared = Inr m4 \<longrightarrow>
      snd (fit P N parse g now s data tc dc) = Inr ()
      \<and> model (fst (fit P N parse g now s data tc dc)) = Some m4)
   \<and> (snd (fit P N parse g now s data tc dc) = Inr ()
      \<or> (\<exists>e. snd (fit P N parse g now s data tc dc)
               = Inl (ModelTrainingException (''Prophet model training failed: '' @ e))))"
proof (intro conjI allI impI)
  fix prepared m0 m1 m2 fc m3 m4
  assume a: "prepare_data parse data tc dc = Inr prepared"
    "Prophet P (constructor_args (s\<lparr>target_column := tc\<rparr>)) = Inr m0"
    "add_custom_seasonalities P m0 = (m1, None)"
    "add_regressors P (m1, feature_columns s) prepared = ((m2, fc), None)"
    "add_country_holidays P ''US'' m2 = Inr m3"
    "prophet_fit P m3 prepared = Inr m4"
  note c = core_fit_chain [OF a]
  show "snd (fit P N parse g now s data tc dc) = Inr ()"
    by (simp add: fit_def c)
  show "model (fst (fit P N parse g now s data tc dc)) = Some m4"
    by (simp add: fit_def c update_metadata_def calculate_training_metrics_def split: sum.splits)
next
  show "snd (fit P N parse g now s data tc dc) = Inr ()
      \<or> (\<exists>e. snd (fit P N parse g now s data tc dc)
               = Inl (ModelTrainingException (''Prophet model training failed: '' @ e)))"
    by (cases "core_fit P parse s data tc dc") (auto simp: fit_def split: sum.splits)
qed

text \<open>The theorem at three daily points, on a fresh instance.\<close>

theorem fit_outcome_witness:
  "snd (fit toy_prophet toy_numerics toy_parse (1::nat) 0 fresh three_days ''y'' ''ds'') = Inr ()
   \<and> model (fst (fit toy_prophet toy_numerics toy_parse (1::nat) 0 fresh three_days ''y'' ''ds''))
       = Some \<lparr>toy_seasonalities = [''quarterly'', ''monthly''], toy_regressors = [],
               toy_history = Some 3\<rparr>"
proof -
  let ?prepared = "\<lparr>columns = [(''ds'', Datetime64), (''y'', Float64)],
                    rows = [[Stamp 0, Num 1], [Stamp 1, Num 2], [Stamp 2, Num 4]]\<rparr>"
  let ?m = "\<lparr>toy_seasonalities = [''quarterly'', ''monthly''], toy_regressors = [],
             toy_history = None\<rparr>"
  have 1: "prepare_data toy_parse three_days ''y'' ''ds'' = Inr ?prepared"
    by code_simp
  have 2: "Prophet toy_prophet (constructor_args (fresh\<lparr>target_column := ''y''\<rparr>)) = Inr blank"
    by (simp add: toy_prophet_def blank_def)
  have 3: "add_custom_seasonalities toy_prophet blank = (?m, None)"
    by code_simp
  have 4: "add_regressors toy_prophet (?m, feature_columns fresh) ?prepared = ((?m, []), None)"
    by code_simp
  have 5: "add_country_holidays toy_prophet ''US'' ?m = Inr ?m"
    by (simp add: toy_prophet_def)
  have 6: "prophet_fit toy_prophet ?m ?prepared = Inr (?m\<lparr>toy_history := Some 3\<rparr>)"
    by code_simp
  from fit_outcome [of toy_parse three_days "''y''" "''ds''" toy_prophet fresh toy_numerics 1 0,
      THEN conjunct1, THEN spec, THEN spec, THEN spec, THEN spec, THEN spec, THEN spec, THEN spec,
      THEN mp, THEN mp, THEN mp, THEN mp, THEN mp, THEN mp, OF 1 2 3 4 5 6]
  show ?thesis by simp
qed

text \<open>
  C1 as stated fails: three daily points are fewer than the fourteen of two weekly
  cycles, and \<open>fit\<close> returns, on a Prophet that (as Prophet does) asks for two rows.
\<close>

theorem fit_counterexample:
  "length (rows three_days) < 14
   \<and> snd (fit toy_prophet toy_numerics toy_parse (1::nat) 0 fresh three_days ''y'' ''ds'') = Inr ()"
  by code_simp

subsection \<open>C2: two calls of \<open>predict\<close> differ in \<open>prediction_date\<close>\<close>

text \<open>
  C2 says that two calls of \<open>predict\<close> on the same fitted model, grid and random seed
  return identical rows. Line 263 stamps every row with \<^verbatim>\<open>datetime.now()\<close>. What
  holds: two calls with the same inputs and the same random state, made at any two
  times, return the same error or rows equal in every field but \<open>prediction_date\<close>.
\<close>

theorem predict_differs_by_clock_only:
  "map_sum id (map undated) (predict P merge g now s periods freq include_history future_regressors)
   = map_sum id (map undated) (predict P merge g now' s periods freq include_history future_regressors)"
  by (auto simp: predict_def predict_body_def undated_add_metrics split: option.splits sum.splits)

text \<open>C2 as stated fails: the same call at clock readings 7 and 8.\<close>

theorem predict_counterexample:
  "predict toy_prophet toy_merge (1::nat) 7 fitted 1 ''D'' False None
   \<noteq> predict toy_prophet toy_merge (1::nat) 8 fitted 1 ''D'' False None"
  by code_simp

subsection \<open>C3: what \<open>prepare_data\<close> refuses\<close>




subsection \<open>C4: values are capped, rows are kept\<close>




subsection \<open>C5: the interval is Prophet's\<close>




subsection \<open>C6: a failure of the training metrics is not fatal\<close>

text \<open>
  C6 says that when the core fit succeeds and the metrics computation fails, \<open>fit\<close>
  returns a usable model with empty metrics, the failure logged as a warning. What
  holds: \<open>fit\<close> returns, the instance holds the object Prophet fitted, one warning
  with the message is logged, and \<open>training_metrics\<close> is what it was before the call:
  empty on an instance that has no metrics yet.
\<close>

theorem metrics_failure_not_fatal:
  assumes "core_fit P parse s data tc dc = (s1, Inr prepared)"
      and "metrics_body P N g s1 prepared = Inl e"
  shows "snd (fit P N parse g now s data tc dc) = Inr ()
         \<and> (\<exists>m3 m4. prophet_fit P m3 prepared = Inr m4
               \<and> model (fst (fit P N parse g now s data tc dc)) = Some m4)
         \<and> training_metrics (fst (fit P N parse g now s data tc dc)) = training_metrics s
         \<and> warnings (fst (fit P N parse g now s data tc dc))
             = warnings s @ [''Could not calculate training metrics: '' @ e]"
  using assms core_fit_keeps [OF assms(1)] core_fit_success [OF assms(1)]
  by (simp add: fit_def update_metadata_def calculate_training_metrics_def)

text \<open>The theorem on a fresh instance: fitted, no metrics, one warning.\<close>

theorem metrics_failure_not_fatal_witness:
  "snd (fit toy_prophet failing_numerics toy_parse (1::nat) 0 fresh three_days ''y'' ''ds'') = Inr ()
   \<and> model (fst (fit toy_prophet failing_numerics toy_parse (1::nat) 0 fresh three_days ''y'' ''ds''))
       = Some \<lparr>toy_seasonalities = [''quarterly'', ''monthly''], toy_regressors = [],
               toy_history = Some 3\<rparr>
   \<and> training_metrics (fst (fit toy_prophet failing_numerics toy_parse (1::nat) 0 fresh three_days ''y'' ''ds''))
       = []
   \<and> warnings (fst (fit toy_prophet failing_numerics toy_parse (1::nat) 0 fresh three_days ''y'' ''ds''))
       = [''Could not calculate training metrics: invalid value encountered'']"
proof -
  let ?prepared = "\<lparr>columns = [(''ds'', Datetime64), (''y'', Float64)],
                    rows = [[Stamp 0, Num 1], [Stamp 1, Num 2], [Stamp 2, Num 4]]\<rparr>"
  let ?m = "\<lparr>toy_seasonalities = [''quarterly'', ''monthly''], toy_regressors = [],
             toy_history = None\<rparr>"
  let ?s1 = "fresh\<lparr>target_column := ''y'', model := Some (?m\<lparr>toy_history := Some 3\<rparr>),
                   feature_columns := []\<rparr>"
  have 1: "prepare_data toy_parse three_days ''y'' ''ds'' = Inr ?prepared"
    by code_simp
  have 2: "Prophet toy_prophet (constructor_args (fresh\<lparr>target_column := ''y''\<rparr>)) = Inr blank"
    by (simp add: toy_prophet_def blank_def)
  have 3: "add_custom_seasonalities toy_prophet blank = (?m, None)"
    by code_simp
  have 4: "add_regressors toy_prophet (?m, feature_columns fresh) ?prepared = ((?m, []), None)"
    by code_simp
  have 5: "add_country_holidays toy_prophet ''US'' ?m = Inr ?m"
    by (simp add: toy_prophet_def)
  have 6: "prophet_fit toy_prophet ?m ?prepared = Inr (?m\<lparr>toy_history := Some 3\<rparr>)"
    by code_simp
  note c = core_fit_chain [OF 1 2 3 4 5 6]
  have e: "metrics_body toy_prophet failing_numerics (1::nat) ?s1 ?prepared
             = Inl ''invalid value encountered''"
    by (simp add: metrics_body_def toy_prophet_def failing_numerics_def toy_numerics_def
        get_column_def column_names_def)
  have f: "training_metrics fresh = []" "warnings fresh = []"
    by (simp_all add: fresh_def init_def)
  from metrics_failure_not_fatal [OF c e, of 0] obtain m3 m4 where
    r: "snd (fit toy_prophet failing_numerics toy_parse (1::nat) 0 fresh three_days ''y'' ''ds'') = Inr ()"
    "training_metrics (fst (fit toy_prophet failing_numerics toy_parse (1::nat) 0 fresh three_days ''y'' ''ds'')) = []"
    "warnings (fst (fit toy_prophet failing_numerics toy_parse (1::nat) 0 fresh three_days ''y'' ''ds''))
       = [''Could not calculate training metrics: invalid value encountered'']"
    using f by auto
  have "model (fst (fit toy_prophet failing_numerics toy_parse (1::nat) 0 fresh three_days ''y'' ''ds''))
       = Some \<lparr>toy_seasonalities = [''quarterly'', ''monthly''], toy_regressors = [],
               toy_history = Some 3\<rparr>"
    by code_simp
  with r show ?thesis by simp
qed

text \<open>
  C6 as stated fails on a second fit: the instance fitted before keeps the metrics of
  that first fit when those of the second cannot be computed.
\<close>

theorem metrics_failure_counterexample:
  "snd (fit toy_prophet failing_numerics toy_parse (1::nat) 9 fitted (daily [Some 3, Some 5]) ''y'' ''ds'')
     = Inr ()
   \<and> training_metrics
       (fst (fit toy_prophet failing_numerics toy_parse (1::nat) 9 fitted (daily [Some 3, Some 5]) ''y'' ''ds''))
     = [(''mape'', Finite 0), (''rmse'', Finite 0), (''mae'', Finite 0), (''r2'', Finite 1)]"
  by code_simp

subsection \<open>C7: \<open>relative_uncertainty\<close> at \<open>yhat = 0\<close>\<close>




subsection \<open>C8: what \<open>save_model\<close> raises and writes\<close>

text \<open>
  C8 says that \<open>save\<close> fails with a persistence error on an unfitted model and on an
  I/O failure, and otherwise serializes everything as one unit. What holds: with no
  Prophet object on the instance, \<open>save_model\<close> raises \<open>ValueError\<close> and writes
  nothing; when \<^verbatim>\<open>joblib.dump\<close> raises, it raises a plain \<open>Exception\<close> with the
  message prefixed; otherwise the file system is what the one call of
  \<^verbatim>\<open>joblib.dump\<close> made of it, given one dictionary of the Prophet object, the feature
  columns, the target column, the training metrics and the metadata.
\<close>

theorem save_model_outcomes:
  "(model s = None \<longrightarrow> save_model dump s filepath fs = (fs, Inl (ValueError ''No model to save'')))
   \<and> (\<forall>m fs' e. model s = Some m \<longrightarrow>
         dump \<lparr>data_model = m, data_feature_columns = feature_columns s,
               data_target_column = target_column s,
               data_training_metrics = training_metrics s,
               data_metadata = metadata s\<rparr> filepath fs = (fs', Some e) \<longrightarrow>
         save_model dump s filepath fs = (fs', Inl (PyException (''Failed to save model: '' @ e))))
   \<and> (\<forall>m fs'. model s = Some m \<longrightarrow>
         dump \<lparr>data_model = m, data_feature_columns = feature_columns s,
               data_target_column = target_column s,
               data_training_metrics = training_metrics s,
               data_metadata = metadata s\<rparr> filepath fs = (fs', None) \<longrightarrow>
         save_model dump s filepath fs = (fs', Inr ()))"
  by (simp add: save_model_def)

text \<open>The theorem on a fresh instance, and on the fitted one saved to a path.\<close>

theorem save_model_outcomes_witness:
  "save_model toy_dump fresh ''model.pkl'' Map.empty = (Map.empty, Inl (ValueError ''No model to save''))
   \<and> snd (save_model toy_dump fitted ''model.pkl'' Map.empty) = Inr ()
   \<and> map_option data_training_metrics (fst (save_model toy_dump fitted ''model.pkl'' Map.empty) ''model.pkl'')
       = Some (training_metrics fitted)"
proof -
  have n: "model (fresh :: toy forecasting_model) = None" by (simp add: fresh_def init_def)
  obtain m where m: "model fitted = Some m"
    by (cases "model fitted") (code_simp, blast)
  let ?d = "\<lparr>data_model = m, data_feature_columns = feature_columns fitted,
               data_target_column = target_column fitted,
               data_training_metrics = training_metrics fitted,
               data_metadata = metadata fitted\<rparr>"
  have d: "toy_dump ?d ''model.pkl'' Map.empty = (Map.empty(''model.pkl'' \<mapsto> ?d), None)"
    by (simp add: toy_dump_def)
  from save_model_outcomes [of fresh toy_dump "''model.pkl''" Map.empty, THEN conjunct1] n
  have a: "save_model toy_dump fresh ''model.pkl'' Map.empty
             = (Map.empty, Inl (ValueError ''No model to save''))"
    by simp
  from save_model_outcomes [of fitted toy_dump "''model.pkl''" Map.empty,
      THEN conjunct2, THEN conjunct2, THEN spec, THEN spec, THEN mp, THEN mp, OF m d]
  have "save_model toy_dump fitted ''model.pkl'' Map.empty = (Map.empty(''model.pkl'' \<mapsto> ?d), Inr ())" .
  with a show ?thesis by simp
qed

text \<open>
  C8 as stated fails: the two failures are of two classes, \<open>ValueError\<close> and the plain
  \<open>Exception\<close>, neither one a persistence error of its own.
\<close>

theorem save_model_counterexample:
  "snd (save_model toy_dump fresh ''model.pkl'' Map.empty) = Inl (ValueError ''No model to save'')
   \<and> snd (save_model toy_dump fitted [] Map.empty)
     = Inl (PyException ''Failed to save model: No such file or directory'')"
  by code_simp

subsection \<open>C9: the regressors are the columns of four dtypes\<close>




subsection \<open>C10: \<open>cross_validate\<close> on an instance without a model\<close>




end
